theory Spec2Isabelle
  imports Main "HOL-Library.Word" "HOL-Library.Sublist"
begin

unbundle bit_operations_syntax

section \<open>JavaScript values and the browser platform\<close>

text \<open>
  The three source files are React components written in TypeScript. Their state lives in
  \<open>useState\<close> cells, their effects go to the browser (local storage, toasts, alerts) and
  to the Firebase SDK. The embedding makes each of these explicit:
  \<^item> a component's state cells are the fields of a record, a handler is a function from
    state to state;
  \<^item> the browser (local storage, the toasts shown, the SDK calls made) is a record that the
    handlers thread through;
  \<^item> what the platform decides (whether an SDK call throws, what the clock reads, what
    \<open>JSON.parse\<close> returns) is an argument of the handler, universally quantified in the
    theorems;
  \<^item> an \<open>async\<close> handler is run to completion with the outcome of each awaited promise
    given by that argument; the widget's \<open>handleFileUpload\<close>, whose time in flight
    matters, is split at its \<open>await\<close>.
  Calls to \<open>console.log\<close> and \<open>console.error\<close> are left out: nothing reads them back.
\<close>

text \<open>
  Values that cross \<open>JSON.parse\<close> are untyped at run time, whatever the TypeScript
  annotation says, so they are JavaScript values. Numbers are only ever tested for
  truthiness here; \<open>JObj\<close> lists an object's own properties, the first entry of a key
  being the one that counts.
\<close>

datatype js =
    JUndefined
  | JNull
  | JBool bool
  | JNum int
  | JStr string
  | JDate int
  | JArr "js list"
  | JObj "(string \<times> js) list"

datatype js_error = TypeError | SyntaxError | Error string | FirebaseError | ReadError

text \<open>The truthiness that \<open>if (x)\<close> and \<open>!x\<close> test.\<close>

fun truthy :: "js \<Rightarrow> bool" where
  "truthy JUndefined = False"
| "truthy JNull = False"
| "truthy (JBool b) = b"
| "truthy (JNum n) = (n \<noteq> 0)"
| "truthy (JStr s) = (s \<noteq> [])"
| "truthy (JDate t) = True"
| "truthy (JArr xs) = True"
| "truthy (JObj kvs) = True"

text \<open>
  Property access \<open>v.k\<close> and \<open>v[k]\<close>, for the seven property names the program uses
  (none of them is inherited from a prototype): a type error on \<open>null\<close> and
  \<open>undefined\<close>, the property or \<open>undefined\<close> on an object, \<open>undefined\<close> elsewhere.
\<close>

fun js_get :: "js \<Rightarrow> string \<Rightarrow> js_error + js" where
  "js_get JUndefined k = Inl TypeError"
| "js_get JNull k = Inl TypeError"
| "js_get (JObj kvs) k = (case map_of kvs k of None \<Rightarrow> Inr JUndefined | Some v \<Rightarrow> Inr v)"
| "js_get v k = Inr JUndefined"

text \<open>The value of \<open>v.k\<close> once \<open>v\<close> is known not to be \<open>null\<close> or \<open>undefined\<close>.\<close>

definition field :: "js \<Rightarrow> string \<Rightarrow> js" where
  "field v k = (case js_get v k of Inl e \<Rightarrow> JUndefined | Inr x \<Rightarrow> x)"

definition nullish :: "js \<Rightarrow> bool" where
  "nullish v = (v = JUndefined \<or> v = JNull)"

text \<open>\<open>Array.prototype.join\<close> on an array of strings.\<close>

fun join :: "string \<Rightarrow> string list \<Rightarrow> string" where
  "join sep [] = []"
| "join sep [x] = x"
| "join sep (x # y # ys) = x @ sep @ join sep (y # ys)"

text \<open>The decimal text of a number, as a template literal prints \<open>Date.now()\<close>.\<close>

definition digit :: "nat \<Rightarrow> char" where
  "digit d = char_of (48 + d)"

function decimal :: "nat \<Rightarrow> string" where
  "decimal n = (if n < 10 then [digit n] else decimal (n div 10) @ [digit (n mod 10)])"
  by pat_completeness auto
termination
  by (relation "measure id") auto

declare decimal.simps [simp del]

definition show_int :: "int \<Rightarrow> string" where
  "show_int t = (if t < 0 then CHR ''-'' # decimal (nat (- t)) else decimal (nat t))"

text \<open>
  What the language run time supplies: \<open>JSON.parse\<close> (\<open>None\<close> when it throws a
  syntax error), \<open>JSON.stringify\<close> and \<open>Date.prototype.toISOString\<close>.
\<close>

record platform =
  JSON_parse :: "string \<Rightarrow> js option"
  JSON_stringify :: "js \<Rightarrow> string"
  toISOString :: "int \<Rightarrow> string"

subsection \<open>Toasts\<close>

datatype variant = Default | Destructive

record toast =
  title :: string
  description :: string
  variant :: variant

text \<open>
  The user-facing strings are Portuguese; a character outside ASCII is written as its
  code point (\<open>0xE3\<close> is a with tilde, \<open>0xE1\<close> a with acute, \<open>0xE7\<close> c with cedilla,
  \<open>0xF5\<close> o with tilde, \<open>0xF3\<close> o with acute, \<open>0xE9\<close> e with acute, \<open>0xED\<close> i with
  acute).
\<close>

definition conexao_necessaria :: toast where
  "conexao_necessaria =
     \<lparr>title = ''Conex'' @ [CHR 0xE3] @ ''o necess'' @ [CHR 0xE1] @ ''ria'',
      description = ''Configure as credenciais do Firestore na aba Configura''
        @ [CHR 0xE7, CHR 0xF5] @ ''es'',
      variant = Destructive\<rparr>"

definition campos_obrigatorios :: "string \<Rightarrow> toast" where
  "campos_obrigatorios d =
     \<lparr>title = ''Campos obrigat'' @ [CHR 0xF3] @ ''rios'', description = d,
      variant = Destructive\<rparr>"

definition preencha_todos :: string where
  "preencha_todos = ''Por favor, preencha todos os campos antes de enviar''"

definition dados_enviados :: "string \<Rightarrow> toast" where
  "dados_enviados docid =
     \<lparr>title = ''Dados enviados com sucesso!'',
      description = ''Registro m'' @ [CHR 0xE9] @ ''dico salvo no Firestore com ID: '' @ docid,
      variant = Default\<rparr>"

definition erro_ao_enviar :: toast where
  "erro_ao_enviar =
     \<lparr>title = ''Erro ao enviar'',
      description = ''Ocorreu um erro ao salvar no Firestore. Verifique sua conex''
        @ [CHR 0xE3] @ ''o e credenciais.'',
      variant = Destructive\<rparr>"

definition conexao_bem_sucedida :: toast where
  "conexao_bem_sucedida =
     \<lparr>title = ''Conex'' @ [CHR 0xE3] @ ''o bem-sucedida'',
      description = ''Credenciais salvas e conex'' @ [CHR 0xE3]
        @ ''o com Firestore testada com sucesso!'',
      variant = Default\<rparr>"

definition erro_de_conexao :: toast where
  "erro_de_conexao =
     \<lparr>title = ''Erro de conex'' @ [CHR 0xE3] @ ''o'',
      description = ''N'' @ [CHR 0xE3] @ ''o foi poss'' @ [CHR 0xED]
        @ ''vel conectar ao Firestore. Verifique suas credenciais.'',
      variant = Destructive\<rparr>"

subsection \<open>The Firebase SDK and the browser\<close>

text \<open>
  Every call into the SDK is recorded, with its arguments, in the order the program makes
  it. \<open>AddDoc\<close> and \<open>DeleteDoc\<close> are the calls that reach the remote service.
\<close>

datatype sdk_call =
    InitializeApp js string
  | GetFirestore string
  | Collection string js
  | AddDoc js js
  | DeleteDoc string

record browser =
  localStorage :: "string \<rightharpoonup> string"
  toasts :: "toast list"
  sdk_calls :: "sdk_call list"
  uncaught :: "js_error list"

definition credentials_key :: string where
  "credentials_key = ''firestore_credentials''"

definition toast_show :: "toast \<Rightarrow> browser \<Rightarrow> browser" where
  "toast_show t b = b\<lparr>toasts := toasts b @ [t]\<rparr>"

definition sdk :: "sdk_call \<Rightarrow> browser \<Rightarrow> browser" where
  "sdk c b = b\<lparr>sdk_calls := sdk_calls b @ [c]\<rparr>"

text \<open>
  What one run of a handler meets: the three clock readings it takes, and for each SDK
  call whether it throws (for \<open>addDoc\<close>: the identifier of the new document, or
  \<open>None\<close> when the promise rejects).
\<close>

record run =
  date_now :: int
  new_date1 :: int
  new_date2 :: int
  initializeApp_throws :: bool
  getFirestore_throws :: bool
  collection_throws :: bool
  addDoc_id :: "string option"
  deleteDoc_rejects :: bool
  setItem_throws :: bool

definition firebaseConfig :: "js \<Rightarrow> js" where
  "firebaseConfig credentials =
     JObj [(''apiKey'', field credentials ''apiKey''),
           (''authDomain'', field credentials ''authDomain''),
           (''projectId'', field credentials ''projectId''),
           (''storageBucket'', field credentials ''storageBucket''),
           (''messagingSenderId'', field credentials ''messagingSenderId''),
           (''appId'', field credentials ''appId'')]"

text \<open>
  The part both components share: initialise an app under a fresh name, take its store,
  name the collection, and add one document. The result is the browser with the calls
  made so far, and the identifier of the new document or the error thrown.
\<close>

definition add_document ::
  "run \<Rightarrow> string \<Rightarrow> js \<Rightarrow> js \<Rightarrow> browser \<Rightarrow> browser \<times> (js_error + string)" where
  "add_document r app_prefix credentials document b =
     (if nullish credentials then (b, Inl TypeError)
      else
        let name = app_prefix @ show_int (date_now r);
            b1 = sdk (InitializeApp (firebaseConfig credentials) name) b
        in if initializeApp_throws r then (b1, Inl FirebaseError)
           else
             let b2 = sdk (GetFirestore name) b1
             in if getFirestore_throws r then (b2, Inl FirebaseError)
                else
                  let coll = field credentials ''collectionName'';
                      b3 = sdk (Collection name coll) b2
                  in if collection_throws r then (b3, Inl FirebaseError)
                     else
                       let b4 = sdk (AddDoc coll document) b3
                       in (case addDoc_id r of
                             None \<Rightarrow> (b4, Inl FirebaseError)
                           | Some docid \<Rightarrow> (b4, Inr docid)))"

section \<open>The record form: \<open>pages/Index.tsx\<close>\<close>

record MedicalRecord =
  ecg :: string
  laudo :: string
  descricao :: string

record index_state =
  activeTab :: string
  isConnected :: bool
  isSubmitting :: bool
  the_record :: MedicalRecord

definition empty_record :: MedicalRecord where
  "empty_record = \<lparr>ecg = [], laudo = [], descricao = []\<rparr>"

definition index_initial :: index_state where
  "index_initial =
     \<lparr>activeTab = ''data'', isConnected = False, isSubmitting = False,
      the_record = empty_record\<rparr>"

text \<open>The mount effect: \<open>getItem\<close> gives \<open>null\<close> or a string, and \<open>if\<close> tests its truthiness.\<close>

definition index_mount :: "browser \<Rightarrow> index_state \<Rightarrow> index_state" where
  "index_mount b s =
     (case localStorage b credentials_key of
        None \<Rightarrow> s
      | Some savedCredentials \<Rightarrow>
          if savedCredentials \<noteq> [] then s\<lparr>isConnected := True\<rparr> else s)"

definition handleCredentialsSave :: "js \<Rightarrow> index_state \<Rightarrow> index_state" where
  "handleCredentialsSave credentials s = s\<lparr>isConnected := True\<rparr>"

text \<open>The record's three change handlers and the tab switch.\<close>

definition set_ecg :: "string \<Rightarrow> index_state \<Rightarrow> index_state" where
  "set_ecg v s = s\<lparr>the_record := (the_record s)\<lparr>ecg := v\<rparr>\<rparr>"

definition set_laudo :: "string \<Rightarrow> index_state \<Rightarrow> index_state" where
  "set_laudo v s = s\<lparr>the_record := (the_record s)\<lparr>laudo := v\<rparr>\<rparr>"

definition set_descricao :: "string \<Rightarrow> index_state \<Rightarrow> index_state" where
  "set_descricao v s = s\<lparr>the_record := (the_record s)\<lparr>descricao := v\<rparr>\<rparr>"

definition setActiveTab :: "string \<Rightarrow> index_state \<Rightarrow> index_state" where
  "setActiveTab v s = s\<lparr>activeTab := v\<rparr>"

text \<open>The document that \<open>handleSubmit\<close> writes.\<close>

definition record_document :: "platform \<Rightarrow> run \<Rightarrow> MedicalRecord \<Rightarrow> js" where
  "record_document pf r m =
     JObj [(''ecg'', JStr (ecg m)),
           (''laudo'', JStr (laudo m)),
           (''descricao'', JStr (descricao m)),
           (''timestamp'', JStr (toISOString pf (new_date1 r))),
           (''created_at'', JDate (new_date2 r))]"

text \<open>The body of the \<open>try\<close> block of \<open>handleSubmit\<close>, up to the awaited \<open>addDoc\<close>.\<close>

definition submit_try ::
  "platform \<Rightarrow> run \<Rightarrow> MedicalRecord \<Rightarrow> browser \<Rightarrow> browser \<times> (js_error + string)" where
  "submit_try pf r m b =
     (case localStorage b credentials_key of
        None \<Rightarrow> (b, Inl (Error (''Credenciais n'' @ [CHR 0xE3] @ ''o encontradas'')))
      | Some savedCredentials \<Rightarrow>
          if savedCredentials = []
          then (b, Inl (Error (''Credenciais n'' @ [CHR 0xE3] @ ''o encontradas'')))
          else
            (case JSON_parse pf savedCredentials of
               None \<Rightarrow> (b, Inl SyntaxError)
             | Some credentials \<Rightarrow>
                 add_document r ''medical-app-'' credentials (record_document pf r m) b))"

definition handleSubmit ::
  "platform \<Rightarrow> run \<Rightarrow> browser \<times> index_state \<Rightarrow> browser \<times> index_state" where
  "handleSubmit pf r = (\<lambda>(b, s).
     if \<not> isConnected s
     then (toast_show conexao_necessaria b, s\<lparr>activeTab := ''config''\<rparr>)
     else if ecg (the_record s) = [] \<or> laudo (the_record s) = []
               \<or> descricao (the_record s) = []
     then (toast_show (campos_obrigatorios preencha_todos) b, s)
     else
       let s1 = s\<lparr>isSubmitting := True\<rparr>
       in (case submit_try pf r (the_record s1) b of
             (b', Inr docid) \<Rightarrow>
               (toast_show (dados_enviados docid) b',
                s1\<lparr>the_record := empty_record, isSubmitting := False\<rparr>)
           | (b', Inl e) \<Rightarrow>
               (toast_show erro_ao_enviar b', s1\<lparr>isSubmitting := False\<rparr>)))"

text \<open>The call that writes a document.\<close>

fun is_write :: "sdk_call \<Rightarrow> bool" where
  "is_write (AddDoc c d) = True"
| "is_write c = False"

section \<open>The connection profile: \<open>components/FirestoreConfig.tsx\<close>\<close>

record FirestoreCredentials =
  projectId :: string
  apiKey :: string
  authDomain :: string
  storageBucket :: string
  messagingSenderId :: string
  appId :: string
  collectionName :: string

text \<open>A typed profile as the object it is at run time.\<close>

definition credentials_object :: "FirestoreCredentials \<Rightarrow> js" where
  "credentials_object p =
     JObj [(''projectId'', JStr (projectId p)),
           (''apiKey'', JStr (apiKey p)),
           (''authDomain'', JStr (authDomain p)),
           (''storageBucket'', JStr (storageBucket p)),
           (''messagingSenderId'', JStr (messagingSenderId p)),
           (''appId'', JStr (appId p)),
           (''collectionName'', JStr (collectionName p))]"

text \<open>
  The component's state. \<open>credentials\<close> holds whatever \<open>JSON.parse\<close> returned at mount,
  so it is a JavaScript value.
\<close>

record config_state =
  credentials :: js
  config_isLoading :: bool

definition default_credentials :: FirestoreCredentials where
  "default_credentials =
     \<lparr>projectId = [], apiKey = [], authDomain = [], storageBucket = [],
      messagingSenderId = [], appId = [], collectionName = ''medical_records''\<rparr>"

definition config_initial :: config_state where
  "config_initial =
     \<lparr>credentials = credentials_object default_credentials, config_isLoading = False\<rparr>"

definition config_mount :: "platform \<Rightarrow> browser \<Rightarrow> config_state \<Rightarrow> config_state" where
  "config_mount pf b c =
     (case localStorage b credentials_key of
        None \<Rightarrow> c
      | Some saved \<Rightarrow>
          if saved \<noteq> []
          then (case JSON_parse pf saved of
                  Some parsedCredentials \<Rightarrow> c\<lparr>credentials := parsedCredentials\<rparr>
                | None \<Rightarrow> c)
          else c)"

definition test_document :: "platform \<Rightarrow> run \<Rightarrow> js" where
  "test_document pf r =
     JObj [(''test'', JBool True),
           (''timestamp'', JStr (toISOString pf (new_date1 r))),
           (''connectionTest'', JStr ''success'')]"

text \<open>\<open>testConnection\<close>: write a marker document, delete it; any error is thrown on.\<close>

definition testConnection ::
  "platform \<Rightarrow> run \<Rightarrow> js \<Rightarrow> browser \<Rightarrow> browser \<times> (js_error + bool)" where
  "testConnection pf r credentialsToTest b =
     (case add_document r ''test-app-'' credentialsToTest (test_document pf r) b of
        (b1, Inl e) \<Rightarrow> (b1, Inl e)
      | (b1, Inr testDoc) \<Rightarrow>
          let b2 = sdk (DeleteDoc testDoc) b1
          in if deleteDoc_rejects r then (b2, Inl FirebaseError) else (b2, Inr True))"

definition requiredFields :: "string list" where
  "requiredFields = [''projectId'', ''apiKey'', ''authDomain'', ''collectionName'']"

definition missingFields :: "js \<Rightarrow> string list" where
  "missingFields c = filter (\<lambda>f. \<not> truthy (field c f)) requiredFields"

definition por_favor_preencha :: "string list \<Rightarrow> string" where
  "por_favor_preencha missing = ''Por favor, preencha: '' @ join '', '' missing"

text \<open>
  \<open>handleSave\<close>. The owner is the component that passed \<open>onCredentialsSave\<close>; its state
  is threaded through so that a call of the callback shows. Reading a property of a
  \<open>null\<close> state throws outside the \<open>try\<close> block, so that error is uncaught.
\<close>

definition handleSave ::
  "platform \<Rightarrow> run \<Rightarrow> (js \<Rightarrow> 'o \<Rightarrow> 'o) \<Rightarrow> browser \<times> config_state \<times> 'o
     \<Rightarrow> browser \<times> config_state \<times> 'o" where
  "handleSave pf r onCredentialsSave = (\<lambda>(b, c, owner).
     if nullish (credentials c)
     then (b\<lparr>uncaught := uncaught b @ [TypeError]\<rparr>, c, owner)
     else
       let missing = missingFields (credentials c)
       in if length missing > 0
          then (toast_show (campos_obrigatorios (por_favor_preencha missing)) b, c, owner)
          else
            let c1 = c\<lparr>config_isLoading := True\<rparr>
            in (case testConnection pf r (credentials c1) b of
                  (b1, Inr ok) \<Rightarrow>
                    if setItem_throws r
                    then (toast_show erro_de_conexao b1,
                          c1\<lparr>config_isLoading := False\<rparr>, owner)
                    else
                      (toast_show conexao_bem_sucedida
                         (b1\<lparr>localStorage := (localStorage b1)
                               (credentials_key \<mapsto> JSON_stringify pf (credentials c1))\<rparr>),
                       c1\<lparr>config_isLoading := False\<rparr>,
                       onCredentialsSave (credentials c1) owner)
                | (b1, Inl e) \<Rightarrow>
                    (toast_show erro_de_conexao b1,
                     c1\<lparr>config_isLoading := False\<rparr>, owner)))"

section \<open>The attachment encoder: \<open>ImageUpload\<close>\<close>

record File =
  file_name :: string
  file_type :: string
  file_bytes :: "8 word list"

subsection \<open>The file reader\<close>

definition alphabet :: string where
  "alphabet = ''ABCDEFGHIJKLMNOPQRSTUVWXYZabcdefghijklmnopqrstuvwxyz0123456789+/''"

text \<open>
  The character of a six-bit group. Every group formed below is less than 64 (lemma
  \<open>sextets\<close>), so the index is within the alphabet.
\<close>

definition b64char :: "8 word \<Rightarrow> char" where
  "b64char s = alphabet ! unat s"

text \<open>
  The six-bit groups of base64: three bytes \<open>a\<close>, \<open>b\<close>, \<open>c\<close> give four of them.
\<close>

definition sextet1 :: "8 word \<Rightarrow> 8 word" where
  "sextet1 a = drop_bit 2 a"

definition sextet2 :: "8 word \<Rightarrow> 8 word \<Rightarrow> 8 word" where
  "sextet2 a b = push_bit 4 (a AND 3) OR drop_bit 4 b"

definition sextet3 :: "8 word \<Rightarrow> 8 word \<Rightarrow> 8 word" where
  "sextet3 b c = push_bit 2 (b AND 15) OR drop_bit 6 c"

definition sextet4 :: "8 word \<Rightarrow> 8 word" where
  "sextet4 c = c AND 63"

text \<open>
  Modelled from the spec: the transcoding inside \<open>FileReader.readAsDataURL\<close>, the
  browser's reader that \<open>convertToBase64\<close> calls and whose code is not part of the
  repository. The spec has the encoder produce "a textual encoding embedding the media
  type and a reversible byte-to-text transcoding of the content", the data-URL form with
  a base64 payload: three bytes become four characters of the alphabet above, a last
  group of one or two bytes is filled with zero bits and padded with \<open>=\<close>.
\<close>

fun to_base64 :: "8 word list \<Rightarrow> string" where
  "to_base64 [] = []"
| "to_base64 [a] =
     [b64char (sextet1 a), b64char (sextet2 a 0), CHR ''='', CHR ''='']"
| "to_base64 [a, b] =
     [b64char (sextet1 a), b64char (sextet2 a b), b64char (sextet3 b 0), CHR ''='']"
| "to_base64 (a # b # c # bs) =
     [b64char (sextet1 a), b64char (sextet2 a b), b64char (sextet3 b c),
      b64char (sextet4 c)] @ to_base64 bs"

text \<open>
  Modelled from the spec: the result of \<open>FileReader.readAsDataURL\<close>, the data-URL form
  with the media type embedded before the base64 payload. The media type is never empty
  here: \<open>handleFileUpload\<close> reads only files whose type starts with \<open>image/\<close>.
\<close>

definition readAsDataURL :: "File \<Rightarrow> string" where
  "readAsDataURL file = ''data:'' @ file_type file @ '';base64,'' @ to_base64 (file_bytes file)"

text \<open>
  What the reader reports back: \<open>onload\<close> with \<open>reader.result\<close> (\<open>None\<close> for
  \<open>null\<close>), or \<open>onerror\<close>. Whether the read fails is the platform's choice.
\<close>

datatype reader_event = Onload "string option" | Onerror

definition file_reader :: "File \<Rightarrow> bool \<Rightarrow> reader_event" where
  "file_reader file fails = (if fails then Onerror else Onload (Some (readAsDataURL file)))"

text \<open>\<open>convertToBase64\<close>: how the promise settles on the reader's event.\<close>

definition convertToBase64 :: "reader_event \<Rightarrow> js_error + string" where
  "convertToBase64 ev =
     (case ev of
        Onload result \<Rightarrow>
          (case result of
             Some s \<Rightarrow> if s \<noteq> [] then Inr s else Inl (Error ''Failed to read file'')
           | None \<Rightarrow> Inl (Error ''Failed to read file''))
      | Onerror \<Rightarrow> Inl ReadError)"

subsection \<open>Decoding\<close>

text \<open>
  Modelled from the spec: the decoding that the round-trip law speaks of; the repository
  has no decoder of its own. The payload of a data URL is what follows its last comma;
  the alphabet has no comma, so for a media type without one this is also what follows
  the first. Four characters give back three bytes, a padded last group one or two.
\<close>

fun index_of :: "'a \<Rightarrow> 'a list \<Rightarrow> nat option" where
  "index_of x [] = None"
| "index_of x (y # ys) = (if x = y then Some 0 else map_option Suc (index_of x ys))"

definition b64val :: "char \<Rightarrow> 8 word option" where
  "b64val c = map_option of_nat (index_of c alphabet)"

definition byte1 :: "8 word \<Rightarrow> 8 word \<Rightarrow> 8 word" where
  "byte1 p q = push_bit 2 p OR drop_bit 4 q"

definition byte2 :: "8 word \<Rightarrow> 8 word \<Rightarrow> 8 word" where
  "byte2 q r = push_bit 4 q OR drop_bit 2 r"

definition byte3 :: "8 word \<Rightarrow> 8 word \<Rightarrow> 8 word" where
  "byte3 r t = push_bit 6 r OR t"

fun unbase64 :: "string \<Rightarrow> 8 word list option" where
  "unbase64 [] = Some []"
| "unbase64 (w # x # y # z # rest) =
     (if rest = [] \<and> y = CHR ''='' \<and> z = CHR ''=''
      then (case (b64val w, b64val x) of
              (Some p, Some q) \<Rightarrow> Some [byte1 p q]
            | _ \<Rightarrow> None)
      else if rest = [] \<and> z = CHR ''=''
      then (case (b64val w, b64val x, b64val y) of
              (Some p, Some q, Some r) \<Rightarrow> Some [byte1 p q, byte2 q r]
            | _ \<Rightarrow> None)
      else (case (b64val w, b64val x, b64val y, b64val z, unbase64 rest) of
              (Some p, Some q, Some r, Some t, Some bs) \<Rightarrow>
                Some ([byte1 p q, byte2 q r, byte3 r t] @ bs)
            | _ \<Rightarrow> None))"
| "unbase64 cs = None"

definition payload :: "string \<Rightarrow> string" where
  "payload s = rev (takeWhile (\<lambda>c. c \<noteq> CHR '','') (rev s))"

definition decodeDataURL :: "string \<Rightarrow> 8 word list option" where
  "decodeDataURL s =
     (if prefix ''data:'' s \<and> CHR '','' \<in> set s then unbase64 (payload s) else None)"

subsection \<open>The widget\<close>

text \<open>
  The widget's two state cells, the \<open>value\<close> its owner passes in, the alerts shown, the
  readers in flight and the values handed to \<open>onChange\<close>. The owner's \<open>onChange\<close>
  stores the new value in the record field that it passes back as \<open>value\<close>
  (\<open>Index.tsx\<close>, both widgets).
\<close>

record upload =
  "value" :: string
  isDragging :: bool
  isLoading :: bool
  alerts :: "string list"
  reading :: "File list"
  changes :: "string list"

definition selecione_imagem :: string where
  "selecione_imagem = ''Por favor, selecione apenas arquivos de imagem.''"

definition erro_ao_processar :: string where
  "erro_ao_processar = ''Erro ao processar a imagem. Tente novamente.''"

definition alert :: "string \<Rightarrow> upload \<Rightarrow> upload" where
  "alert msg u = u\<lparr>alerts := alerts u @ [msg]\<rparr>"

definition onChange :: "string \<Rightarrow> upload \<Rightarrow> upload" where
  "onChange v u = u\<lparr>value := v, changes := changes u @ [v]\<rparr>"

text \<open>
  \<open>handleFileUpload\<close> up to its \<open>await\<close>: the media type test, the busy flag, the
  start of the read.
\<close>

definition handleFileUpload :: "File \<Rightarrow> upload \<Rightarrow> upload" where
  "handleFileUpload file u =
     (if \<not> prefix ''image/'' (file_type file) then alert selecione_imagem u
      else u\<lparr>isLoading := True, reading := reading u @ [file]\<rparr>)"

text \<open>\<open>handleFileUpload\<close> after its \<open>await\<close>, on the settled promise.\<close>

definition handleFileUpload_settled :: "js_error + string \<Rightarrow> upload \<Rightarrow> upload" where
  "handleFileUpload_settled outcome u =
     (case outcome of
        Inr base64 \<Rightarrow> (onChange base64 u)\<lparr>isLoading := False\<rparr>
      | Inl error \<Rightarrow> (alert erro_ao_processar u)\<lparr>isLoading := False\<rparr>)"

definition handleDrop :: "File list \<Rightarrow> upload \<Rightarrow> upload" where
  "handleDrop files u =
     (let u1 = u\<lparr>isDragging := False\<rparr>
      in case files of [] \<Rightarrow> u1 | file # others \<Rightarrow> handleFileUpload file u1)"

definition handleDragOver :: "upload \<Rightarrow> upload" where
  "handleDragOver u = u\<lparr>isDragging := True\<rparr>"

definition handleDragLeave :: "upload \<Rightarrow> upload" where
  "handleDragLeave u = u\<lparr>isDragging := False\<rparr>"

definition handleFileSelect :: "File list \<Rightarrow> upload \<Rightarrow> upload" where
  "handleFileSelect files u =
     (case files of [] \<Rightarrow> u | file # others \<Rightarrow> handleFileUpload file u)"

definition clearImage :: "upload \<Rightarrow> upload" where
  "clearImage u = onChange [] u"

text \<open>
  What the rendered tree offers. The file input exists only while \<open>value\<close> is empty and
  carries \<open>disabled={isLoading}\<close>; the clear button exists only while \<open>value\<close> is not
  empty; the overlay that reports the busy state shows while \<open>isLoading\<close>; the drag and
  drop handlers sit on the enclosing element, which is always rendered and carries no
  condition.
\<close>

definition input_rendered :: "upload \<Rightarrow> bool" where
  "input_rendered u = (value u = [])"

definition input_disabled :: "upload \<Rightarrow> bool" where
  "input_disabled u = isLoading u"

definition clear_rendered :: "upload \<Rightarrow> bool" where
  "clear_rendered u = (value u \<noteq> [])"

definition busy_shown :: "upload \<Rightarrow> bool" where
  "busy_shown u = isLoading u"

datatype upload_event =
    Drop "File list"
  | DragOver
  | DragLeave
  | FileSelect "File list"
  | ClearClick
  | ReaderDone nat bool

text \<open>
  One event of the widget. The browser delivers no change event from an input that is
  absent or disabled, and no click to a button that is absent. \<open>ReaderDone i fails\<close>
  is the \<open>i\<close>-th reader in flight reporting back.
\<close>

fun upload_step :: "upload_event \<Rightarrow> upload \<Rightarrow> upload" where
  "upload_step (Drop files) u = handleDrop files u"
| "upload_step DragOver u = handleDragOver u"
| "upload_step DragLeave u = handleDragLeave u"
| "upload_step (FileSelect files) u =
     (if input_rendered u \<and> \<not> input_disabled u then handleFileSelect files u else u)"
| "upload_step ClearClick u = (if clear_rendered u then clearImage u else u)"
| "upload_step (ReaderDone i fails) u =
     (if i < length (reading u)
      then handleFileUpload_settled
             (convertToBase64 (file_reader (reading u ! i) fails))
             (u\<lparr>reading := take i (reading u) @ drop (Suc i) (reading u)\<rparr>)
      else u)"

text \<open>An encode of the widget starts when a reader is added to those in flight.\<close>

definition encode_started :: "upload \<Rightarrow> upload \<Rightarrow> bool" where
  "encode_started u u' = (length (reading u') > length (reading u))"

section \<open>The page as a whole\<close>

text \<open>
  The events of the page that touch the state of \<open>Index\<close>: the two widgets and the text
  area changing a field of the record, a tab being chosen, the submit button, and the
  settings panel reporting a saved profile through \<open>onCredentialsSave\<close>.
\<close>

datatype index_event =
    EcgChange string
  | LaudoChange string
  | DescricaoChange string
  | TabChange string
  | SubmitClick run
  | CredentialsSaved js

fun index_step ::
  "platform \<Rightarrow> index_event \<Rightarrow> browser \<times> index_state \<Rightarrow> browser \<times> index_state" where
  "index_step pf (EcgChange v) (b, s) = (b, set_ecg v s)"
| "index_step pf (LaudoChange v) (b, s) = (b, set_laudo v s)"
| "index_step pf (DescricaoChange v) (b, s) = (b, set_descricao v s)"
| "index_step pf (TabChange v) (b, s) = (b, setActiveTab v s)"
| "index_step pf (SubmitClick r) (b, s) = handleSubmit pf r (b, s)"
| "index_step pf (CredentialsSaved c) (b, s) = (b, handleCredentialsSave c s)"


definition index_run ::
  "platform \<Rightarrow> index_event list \<Rightarrow> browser \<times> index_state \<Rightarrow> browser \<times> index_state" where
  "index_run pf evs bs = foldl (\<lambda>x e. index_step pf e x) bs evs"

text \<open>The SDK calls made between two states of the browser, and the writes among them.\<close>

definition new_calls :: "browser \<Rightarrow> browser \<Rightarrow> sdk_call list" where
  "new_calls b b' = drop (length (sdk_calls b)) (sdk_calls b')"

definition writes :: "sdk_call list \<Rightarrow> sdk_call list" where
  "writes cs = filter is_write cs"

definition some_empty :: "MedicalRecord \<Rightarrow> bool" where
  "some_empty m = (ecg m = [] \<or> laudo m = [] \<or> descricao m = [])"

fun keys :: "js \<Rightarrow> string list" where
  "keys (JObj kvs) = map fst kvs"
| "keys v = []"

text \<open>The required fields of a typed profile that are empty, in the order they are tested.\<close>

definition empty_required :: "FirestoreCredentials \<Rightarrow> string list" where
  "empty_required p =
     (if projectId p = [] then [''projectId''] else []) @
     (if apiKey p = [] then [''apiKey''] else []) @
     (if authDomain p = [] then [''authDomain''] else []) @
     (if collectionName p = [] then [''collectionName''] else [])"

text \<open>A round trip fails when any of its steps throws.\<close>

definition round_trip_fails :: "run \<Rightarrow> bool" where
  "round_trip_fails r =
     (initializeApp_throws r \<or> getFirestore_throws r \<or> collection_throws r
      \<or> addDoc_id r = None \<or> deleteDoc_rejects r)"

subsection \<open>Concrete inputs\<close>

definition example_profile :: FirestoreCredentials where
  "example_profile =
     \<lparr>projectId = ''demo'', apiKey = ''k'', authDomain = ''demo.firebaseapp.com'',
      storageBucket = [], messagingSenderId = [], appId = [],
      collectionName = ''medical_records''\<rparr>"

definition example_json :: string where
  \<open>example_json =
     ''{"projectId":"demo","apiKey":"k","authDomain":"demo.firebaseapp.com",'' @
     ''"storageBucket":"","messagingSenderId":"","appId":"",'' @
     ''"collectionName":"medical_records"}''\<close>

text \<open>
  A platform cut down to what the examples need: it parses the text above, the JSON text
  of the example profile, to that profile and rejects every other text, prints the
  example profile as that text, and prints the first two milliseconds of the epoch.
\<close>

definition example_platform :: platform where
  "example_platform =
     \<lparr>JSON_parse = (\<lambda>s. if s = example_json
                          then Some (credentials_object example_profile) else None),
      JSON_stringify = (\<lambda>v. if v = credentials_object example_profile
                              then example_json else ''null''),
      toISOString = (\<lambda>t. if t = 1 then ''1970-01-01T00:00:00.001Z''
                           else ''1970-01-01T00:00:00.000Z'')\<rparr>"

definition example_run :: "string option \<Rightarrow> run" where
  "example_run reply =
     \<lparr>date_now = 0, new_date1 = 1, new_date2 = 2,
      initializeApp_throws = False, getFirestore_throws = False,
      collection_throws = False, addDoc_id = reply, deleteDoc_rejects = False,
      setItem_throws = False\<rparr>"

definition example_browser :: "string option \<Rightarrow> browser" where
  "example_browser saved =
     \<lparr>localStorage = (case saved of None \<Rightarrow> Map.empty
                        | Some v \<Rightarrow> [credentials_key \<mapsto> v]),
      toasts = [], sdk_calls = [], uncaught = []\<rparr>"

definition example_record :: MedicalRecord where
  "example_record =
     \<lparr>ecg = ''data:image/png;base64,XX'', laudo = ''data:image/png;base64,YY'',
      descricao = ''ok''\<rparr>"

definition example_events :: "index_event list" where
  "example_events =
     [EcgChange ''data:image/png;base64,XX'', LaudoChange ''data:image/png;base64,YY'',
      DescricaoChange ''ok'']"

text \<open>The page mounted over a stored profile, its record then filled in.\<close>

definition example_state :: index_state where
  "example_state =
     snd (index_run example_platform example_events
            (example_browser (Some example_json),
             index_mount (example_browser (Some example_json)) index_initial))"

text \<open>The field names of the document that a write carries.\<close>

fun written_keys :: "sdk_call \<Rightarrow> string list" where
  "written_keys (AddDoc c d) = keys d"
| "written_keys c = []"

text \<open>An owner that keeps every profile it is notified of, and a settings panel filled in.\<close>

definition log_owner :: "js \<Rightarrow> js list \<Rightarrow> js list" where
  "log_owner c l = l @ [c]"

definition example_config :: config_state where
  "example_config =
     \<lparr>credentials = credentials_object example_profile, config_isLoading = False\<rparr>"

text \<open>Two image files, a file that is no image, and a widget at rest.\<close>

definition example_png :: File where
  "example_png =
     \<lparr>file_name = ''ecg.png'', file_type = ''image/png'',
      file_bytes = [0x89, 0x50, 0x4E, 0x47, 0x0D]\<rparr>"

definition example_gif :: File where
  "example_gif =
     \<lparr>file_name = ''ecg.gif'', file_type = ''image/gif'',
      file_bytes = [0x47, 0x49, 0x46]\<rparr>"

definition example_pdf :: File where
  "example_pdf =
     \<lparr>file_name = ''laudo.pdf'', file_type = ''application/pdf'',
      file_bytes = [0x25, 0x50, 0x44, 0x46]\<rparr>"

definition idle_upload :: upload where
  "idle_upload =
     \<lparr>value = [], isDragging = False, isLoading = False, alerts = [], reading = [],
      changes = []\<rparr>"

text \<open>The widget after a file was picked, its read still in flight.\<close>

definition busy_upload :: upload where
  "busy_upload = upload_step (FileSelect [example_png]) idle_upload"

section \<open>Basic facts\<close>

lemmas example_defs = example_platform_def example_run_def example_browser_def
  example_profile_def example_json_def example_record_def example_events_def

lemmas page_defs = handleSubmit_def submit_try_def add_document_def record_document_def
  firebaseConfig_def field_def nullish_def credentials_object_def sdk_def toast_show_def
  new_calls_def writes_def credentials_key_def index_mount_def index_initial_def
  index_run_def set_ecg_def set_laudo_def set_descricao_def setActiveTab_def
  handleCredentialsSave_def empty_record_def some_empty_def Let_def

lemma example_state_eq:
  "example_state = \<lparr>activeTab = ''data'', isConnected = True, isSubmitting = False,
      the_record = example_record\<rparr>"
  by (simp add: example_state_def example_defs page_defs)

lemma new_calls_toast_show [simp]: "new_calls b (toast_show t b1) = new_calls b b1"
  by (simp add: new_calls_def toast_show_def)

lemma new_calls_self [simp]: "new_calls b b = []"
  by (simp add: new_calls_def)

lemma toasts_toast_show [simp]: "toasts (toast_show t b) = toasts b @ [t]"
  by (simp add: toast_show_def)

lemma sdk_calls_toast_show [simp]: "sdk_calls (toast_show t b) = sdk_calls b"
  by (simp add: toast_show_def)

lemma localStorage_toast_show [simp]: "localStorage (toast_show t b) = localStorage b"
  by (simp add: toast_show_def)

text \<open>The shared SDK sequence touches nothing but the list of calls.\<close>

lemma add_document_frame:
  assumes "add_document r px c d b = (b1, res)"
  shows "toasts b1 = toasts b" and "localStorage b1 = localStorage b"
    and "uncaught b1 = uncaught b"
  using assms
  by (auto simp: add_document_def Let_def sdk_def split: if_splits option.splits)

lemma add_document_Inr:
  assumes "add_document r px c d b = (b1, Inr docid)"
  shows "addDoc_id r = Some docid"
    and "new_calls b b1 =
           [InitializeApp (firebaseConfig c) (px @ show_int (date_now r)),
            GetFirestore (px @ show_int (date_now r)),
            Collection (px @ show_int (date_now r)) (field c ''collectionName''),
            AddDoc (field c ''collectionName'') d]"
    and "\<not> nullish c" and "\<not> initializeApp_throws r" and "\<not> getFirestore_throws r"
    and "\<not> collection_throws r"
  using assms
  by (auto simp: add_document_def Let_def sdk_def new_calls_def split: if_splits option.splits)

lemma add_document_Inl:
  assumes "add_document r px c d b = (b1, Inl e)"
  shows "writes (new_calls b b1) \<noteq> [] \<Longrightarrow> addDoc_id r = None"
    and "nullish c \<or> initializeApp_throws r \<or> getFirestore_throws r
           \<or> collection_throws r \<or> addDoc_id r = None"
  using assms
  by (auto simp: add_document_def Let_def sdk_def new_calls_def writes_def
      split: if_splits option.splits)

lemma submit_try_frame:
  assumes "submit_try pf r m b = (b1, res)"
  shows "toasts b1 = toasts b" and "localStorage b1 = localStorage b"
  using assms add_document_frame
  by (auto simp: submit_try_def split: if_splits option.splits)

lemma submit_try_Inr:
  assumes "submit_try pf r m b = (b1, Inr docid)"
  shows "addDoc_id r = Some docid" and "writes (new_calls b b1) \<noteq> []"
  using assms add_document_Inr [of r "''medical-app-''" _ "record_document pf r m" b b1 docid]
  by (auto simp: submit_try_def writes_def split: if_splits option.splits)

lemma submit_try_Inl:
  assumes "submit_try pf r m b = (b1, Inl e)" and "writes (new_calls b b1) \<noteq> []"
  shows "addDoc_id r = None"
  using assms add_document_Inl(1) [of r "''medical-app-''" _ "record_document pf r m" b b1 e]
  by (auto simp: submit_try_def writes_def split: if_splits option.splits)

section \<open>Submission\<close>

text \<open>
  Claim C1. A submission is atomic on the in-memory record. When the remote write was
  issued and fails, the record is what it was before and the one notice shown is the
  generic failure notice; when it was issued and succeeds, the record is empty and the
  one notice shown ends with the identifier of the new document; when no write was
  issued at all the record is what it was, and if the guards had passed (the failure
  came ahead of the write) the notice is again the generic failure notice. The notices
  are stated in full.
\<close>

theorem C1_submit_atomic:
  assumes "handleSubmit pf r (b, s) = (b', s')"
  shows "(writes (new_calls b b') \<noteq> [] \<and> addDoc_id r = None \<longrightarrow>
            the_record s' = the_record s
          \<and> toasts b' = toasts b @
              [\<lparr>title = ''Erro ao enviar'',
                description = ''Ocorreu um erro ao salvar no Firestore. Verifique sua conex''
                  @ [CHR 0xE3] @ ''o e credenciais.'',
                variant = Destructive\<rparr>])
       \<and> (\<forall>docid. writes (new_calls b b') \<noteq> [] \<and> addDoc_id r = Some docid \<longrightarrow>
            the_record s' = \<lparr>ecg = [], laudo = [], descricao = []\<rparr>
          \<and> toasts b' = toasts b @
              [\<lparr>title = ''Dados enviados com sucesso!'',
                description = ''Registro m'' @ [CHR 0xE9]
                  @ ''dico salvo no Firestore com ID: '' @ docid,
                variant = Default\<rparr>])
       \<and> (writes (new_calls b b') = [] \<longrightarrow> the_record s' = the_record s)
       \<and> (isConnected s \<and> ecg (the_record s) \<noteq> [] \<and> laudo (the_record s) \<noteq> []
            \<and> descricao (the_record s) \<noteq> [] \<and> writes (new_calls b b') = [] \<longrightarrow>
            toasts b' = toasts b @
              [\<lparr>title = ''Erro ao enviar'',
                description = ''Ocorreu um erro ao salvar no Firestore. Verifique sua conex''
                  @ [CHR 0xE3] @ ''o e credenciais.'',
                variant = Destructive\<rparr>])"
proof (cases "\<not> isConnected s \<or> some_empty (the_record s)")
  case True
  with assms have "new_calls b b' = []" and "the_record s' = the_record s"
    by (auto simp: handleSubmit_def some_empty_def split: if_splits)
  with True show ?thesis by (auto simp add: writes_def some_empty_def)
next
  case False
  obtain b1 res where tr: "submit_try pf r (the_record s) b = (b1, res)"
    by (cases "submit_try pf r (the_record s) b")
  show ?thesis
  proof (cases res)
    case (Inl e)
    with False tr assms have "b' = toast_show erro_ao_enviar b1"
      and "the_record s' = the_record s"
      by (auto simp: handleSubmit_def some_empty_def)
    moreover note submit_try_frame(1) [OF tr]
    ultimately have t: "the_record s' = the_record s"
      "toasts b' = toasts b @ [erro_ao_enviar]" "new_calls b b' = new_calls b b1"
      by simp_all
    have w: "writes (new_calls b b') \<noteq> [] \<Longrightarrow> addDoc_id r = None"
      using submit_try_Inl [OF tr [unfolded Inl]] t(3) by simp
    show ?thesis
    proof (cases "writes (new_calls b b') = []")
      case True
      with t show ?thesis by (simp add: erro_ao_enviar_def)
    next
      case False
      with w t show ?thesis by (simp add: erro_ao_enviar_def)
    qed
  next
    case (Inr docid)
    with False tr assms have "b' = toast_show (dados_enviados docid) b1"
      and "the_record s' = empty_record"
      by (auto simp: handleSubmit_def some_empty_def)
    moreover note submit_try_frame(1) [OF tr] submit_try_Inr [OF tr [unfolded Inr]]
    ultimately show ?thesis by (auto simp: dados_enviados_def empty_record_def)
  qed
qed

theorem C1_submit_atomic_witness:
  "the_record (snd (handleSubmit example_platform (example_run None)
      (example_browser (Some example_json), example_state)))
     = \<lparr>ecg = ''data:image/png;base64,XX'', laudo = ''data:image/png;base64,YY'',
        descricao = ''ok''\<rparr>
   \<and> toasts (fst (handleSubmit example_platform (example_run None)
      (example_browser (Some example_json), example_state)))
     = [\<lparr>title = ''Erro ao enviar'',
         description = ''Ocorreu um erro ao salvar no Firestore. Verifique sua conex''
           @ [CHR 0xE3] @ ''o e credenciais.'',
         variant = Destructive\<rparr>]
   \<and> the_record (snd (handleSubmit example_platform (example_run (Some ''doc1''))
      (example_browser (Some example_json), example_state)))
     = \<lparr>ecg = [], laudo = [], descricao = []\<rparr>
   \<and> toasts (fst (handleSubmit example_platform (example_run (Some ''doc1''))
      (example_browser (Some example_json), example_state)))
     = [\<lparr>title = ''Dados enviados com sucesso!'',
         description = ''Registro m'' @ [CHR 0xE9]
           @ ''dico salvo no Firestore com ID: doc1'',
         variant = Default\<rparr>]
   \<and> the_record (snd (handleSubmit example_platform (example_run (Some ''doc1''))
      (example_browser None, example_state\<lparr>isConnected := False\<rparr>)))
     = \<lparr>ecg = ''data:image/png;base64,XX'', laudo = ''data:image/png;base64,YY'',
        descricao = ''ok''\<rparr>
   \<and> toasts (fst (handleSubmit example_platform
        ((example_run (Some ''doc1''))\<lparr>initializeApp_throws := True\<rparr>)
      (example_browser (Some example_json), example_state)))
     = [\<lparr>title = ''Erro ao enviar'',
         description = ''Ocorreu um erro ao salvar no Firestore. Verifique sua conex''
           @ [CHR 0xE3] @ ''o e credenciais.'',
         variant = Destructive\<rparr>]"
proof -
  let ?b = "example_browser (Some example_json)"
  let ?f = "handleSubmit example_platform (example_run None) (?b, example_state)"
  let ?g = "handleSubmit example_platform (example_run (Some ''doc1'')) (?b, example_state)"
  let ?n = "example_browser None"
  let ?t = "example_state\<lparr>isConnected := False\<rparr>"
  let ?h = "handleSubmit example_platform (example_run (Some ''doc1'')) (?n, ?t)"
  let ?r = "(example_run (Some ''doc1''))\<lparr>initializeApp_throws := True\<rparr>"
  let ?k = "handleSubmit example_platform ?r (?b, example_state)"
  have wf: "writes (new_calls ?b (fst ?f)) \<noteq> []" "addDoc_id (example_run None) = None"
    by (simp_all add: example_state_eq example_defs page_defs)
  have wg: "writes (new_calls ?b (fst ?g)) \<noteq> []"
    "addDoc_id (example_run (Some ''doc1'')) = Some ''doc1''"
    by (simp_all add: example_state_eq example_defs page_defs)
  have wh: "writes (new_calls ?n (fst ?h)) = []"
    by (simp add: handleSubmit_def writes_def)
  have wk: "writes (new_calls ?b (fst ?k)) = []"
    by (simp add: example_state_eq example_defs page_defs)
  have st: "toasts ?b = []"
    "the_record example_state
       = \<lparr>ecg = ''data:image/png;base64,XX'', laudo = ''data:image/png;base64,YY'',
          descricao = ''ok''\<rparr>"
    "the_record ?t
       = \<lparr>ecg = ''data:image/png;base64,XX'', laudo = ''data:image/png;base64,YY'',
          descricao = ''ok''\<rparr>"
    "isConnected example_state"
    by (simp_all add: example_state_eq example_defs)
  note f = C1_submit_atomic [of example_platform "example_run None" ?b example_state
      "fst ?f" "snd ?f"]
  note g = C1_submit_atomic [of example_platform "example_run (Some ''doc1'')" ?b
      example_state "fst ?g" "snd ?g"]
  note h = C1_submit_atomic [of example_platform "example_run (Some ''doc1'')" ?n ?t
      "fst ?h" "snd ?h"]
  note k = C1_submit_atomic [of example_platform ?r ?b example_state "fst ?k" "snd ?k"]
  from f wf st have 1: "the_record (snd ?f)
       = \<lparr>ecg = ''data:image/png;base64,XX'', laudo = ''data:image/png;base64,YY'',
          descricao = ''ok''\<rparr>"
    "toasts (fst ?f) = [\<lparr>title = ''Erro ao enviar'',
         description = ''Ocorreu um erro ao salvar no Firestore. Verifique sua conex''
           @ [CHR 0xE3] @ ''o e credenciais.'',
         variant = Destructive\<rparr>]"
    by simp_all
  from g wg st have 2: "the_record (snd ?g) = \<lparr>ecg = [], laudo = [], descricao = []\<rparr>"
    "toasts (fst ?g) = [\<lparr>title = ''Dados enviados com sucesso!'',
         description = ''Registro m'' @ [CHR 0xE9]
           @ ''dico salvo no Firestore com ID: doc1'',
         variant = Default\<rparr>]"
    by simp_all
  from h wh st have 3: "the_record (snd ?h)
       = \<lparr>ecg = ''data:image/png;base64,XX'', laudo = ''data:image/png;base64,YY'',
          descricao = ''ok''\<rparr>"
    by simp
  from k wk st have 4: "toasts (fst ?k) = [\<lparr>title = ''Erro ao enviar'',
         description = ''Ocorreu um erro ao salvar no Firestore. Verifique sua conex''
           @ [CHR 0xE3] @ ''o e credenciais.'',
         variant = Destructive\<rparr>]"
    by simp
  from 1 2 3 4 show ?thesis by simp
qed

section \<open>Refusals and the scenario of a submission\<close>

lemma handleSubmit_not_connected:
  "\<not> isConnected s \<Longrightarrow>
   handleSubmit pf r (b, s) = (toast_show conexao_necessaria b, s\<lparr>activeTab := ''config''\<rparr>)"
  by (simp add: handleSubmit_def)

lemma handleSubmit_some_empty:
  "isConnected s \<Longrightarrow> some_empty (the_record s) \<Longrightarrow>
   handleSubmit pf r (b, s) = (toast_show (campos_obrigatorios preencha_todos) b, s)"
  by (auto simp add: handleSubmit_def some_empty_def)






text \<open>
  Claim C5. A record with an empty field is never written: no SDK call is made, nothing
  is stored and the record stays. Once the connection guard has passed (a profile is
  active), the notice shown is the missing-fields notice and the whole state of the
  page stays as it was. The witness runs the seven records with an empty field.
\<close>

theorem C5_missing_fields:
  assumes "ecg (the_record s) = [] \<or> laudo (the_record s) = [] \<or> descricao (the_record s) = []"
    and "handleSubmit pf r (b, s) = (b', s')"
  shows "sdk_calls b' = sdk_calls b \<and> localStorage b' = localStorage b
       \<and> the_record s' = the_record s
       \<and> (isConnected s \<longrightarrow>
            toasts b' = toasts b @
              [\<lparr>title = ''Campos obrigat'' @ [CHR 0xF3] @ ''rios'',
                description = ''Por favor, preencha todos os campos antes de enviar'',
                variant = Destructive\<rparr>]
          \<and> s' = s)"
proof (cases "isConnected s")
  case True
  from assms(1) have "some_empty (the_record s)" by (simp add: some_empty_def)
  from assms(2) handleSubmit_some_empty [OF True this, of pf r b] True
  show ?thesis by (auto simp: campos_obrigatorios_def preencha_todos_def)
next
  case False
  from assms(2) handleSubmit_not_connected [OF False, of pf r b] False
  show ?thesis by auto
qed

theorem C5_missing_fields_witness:
  "list_all
     (\<lambda>m. toasts (fst (handleSubmit example_platform (example_run (Some ''doc1''))
              (example_browser (Some example_json), example_state\<lparr>the_record := m\<rparr>)))
            = [\<lparr>title = ''Campos obrigat'' @ [CHR 0xF3] @ ''rios'',
                description = ''Por favor, preencha todos os campos antes de enviar'',
                variant = Destructive\<rparr>]
          \<and> sdk_calls (fst (handleSubmit example_platform (example_run (Some ''doc1''))
              (example_browser (Some example_json), example_state\<lparr>the_record := m\<rparr>))) = []
          \<and> snd (handleSubmit example_platform (example_run (Some ''doc1''))
              (example_browser (Some example_json), example_state\<lparr>the_record := m\<rparr>))
            = example_state\<lparr>the_record := m\<rparr>)
     [\<lparr>ecg = [], laudo = [], descricao = []\<rparr>,
      \<lparr>ecg = ''a'', laudo = [], descricao = []\<rparr>,
      \<lparr>ecg = [], laudo = ''b'', descricao = []\<rparr>,
      \<lparr>ecg = [], laudo = [], descricao = ''d''\<rparr>,
      \<lparr>ecg = ''a'', laudo = ''b'', descricao = []\<rparr>,
      \<lparr>ecg = ''a'', laudo = [], descricao = ''d''\<rparr>,
      \<lparr>ecg = [], laudo = ''b'', descricao = ''d''\<rparr>]"
proof -
  let ?b = "example_browser (Some example_json)"
  let ?r = "example_run (Some ''doc1'')"
  have gen: "toasts (fst (handleSubmit example_platform ?r (?b, example_state\<lparr>the_record := m\<rparr>)))
            = [\<lparr>title = ''Campos obrigat'' @ [CHR 0xF3] @ ''rios'',
                description = ''Por favor, preencha todos os campos antes de enviar'',
                variant = Destructive\<rparr>]
          \<and> sdk_calls (fst (handleSubmit example_platform ?r
                (?b, example_state\<lparr>the_record := m\<rparr>))) = []
          \<and> snd (handleSubmit example_platform ?r (?b, example_state\<lparr>the_record := m\<rparr>))
            = example_state\<lparr>the_record := m\<rparr>"
    if m: "ecg m = [] \<or> laudo m = [] \<or> descricao m = []" for m
  proof -
    let ?s = "example_state\<lparr>the_record := m\<rparr>"
    let ?f = "handleSubmit example_platform ?r (?b, ?s)"
    have h1: "ecg (the_record ?s) = [] \<or> laudo (the_record ?s) = []
        \<or> descricao (the_record ?s) = []"
      using m by simp
    have h2: "handleSubmit example_platform ?r (?b, ?s) = (fst ?f, snd ?f)" by simp
    have c: "isConnected ?s" "toasts ?b = []" "sdk_calls ?b = []"
      by (simp_all add: example_state_eq example_browser_def)
    from C5_missing_fields [OF h1 h2] c show ?thesis by simp
  qed
  show ?thesis by (simp add: gen)
qed

lemma index_run_example_events:
  "index_run pf example_events (b, s) =
     (b, s\<lparr>the_record := \<lparr>ecg = ''data:image/png;base64,XX'',
                             laudo = ''data:image/png;base64,YY'', descricao = ''ok''\<rparr>\<rparr>)"
  by (simp add: index_run_def example_events_def set_ecg_def set_laudo_def set_descricao_def)

lemma index_mount_stored:
  "localStorage b credentials_key = Some saved \<Longrightarrow> saved \<noteq> [] \<Longrightarrow>
   index_mount b s = s\<lparr>isConnected := True\<rparr>"
  by (simp add: index_mount_def)

text \<open>
  Claim C7, as amended. In the scenario of the spec (a stored profile that parses and
  that the SDK accepts, the record filled with the three given values) the submission
  makes exactly one write, whether that write then succeeds or is rejected, to the
  profile's collection, of a document with the three fields and two fields of the time
  of submission, \<open>timestamp\<close> (a text) and \<open>created_at\<close> (a date). On success the record is
  empty and the notice ends with the new identifier; on rejection the record is kept
  and the notice is the failure notice.
\<close>

theorem C7_submit_scenario:
  assumes "localStorage b credentials_key = Some saved" and "saved \<noteq> []"
    and "JSON_parse pf saved = Some (credentials_object p)"
    and "\<not> initializeApp_throws r" and "\<not> getFirestore_throws r"
    and "\<not> collection_throws r"
    and "index_run pf
           [EcgChange ''data:image/png;base64,XX'', LaudoChange ''data:image/png;base64,YY'',
            DescricaoChange ''ok'']
           (b, index_mount b index_initial) = (b1, s)"
    and "handleSubmit pf r (b1, s) = (b', s')"
  shows "new_calls b b' =
           [InitializeApp (firebaseConfig (credentials_object p))
              (''medical-app-'' @ show_int (date_now r)),
            GetFirestore (''medical-app-'' @ show_int (date_now r)),
            Collection (''medical-app-'' @ show_int (date_now r)) (JStr (collectionName p)),
            AddDoc (JStr (collectionName p))
              (JObj [(''ecg'', JStr ''data:image/png;base64,XX''),
                     (''laudo'', JStr ''data:image/png;base64,YY''),
                     (''descricao'', JStr ''ok''),
                     (''timestamp'', JStr (toISOString pf (new_date1 r))),
                     (''created_at'', JDate (new_date2 r))])]
       \<and> length (writes (new_calls b b')) = 1
       \<and> (\<forall>docid. addDoc_id r = Some docid \<longrightarrow>
            the_record s' = \<lparr>ecg = [], laudo = [], descricao = []\<rparr>
          \<and> toasts b' = toasts b @
              [\<lparr>title = ''Dados enviados com sucesso!'',
                description = ''Registro m'' @ [CHR 0xE9]
                  @ ''dico salvo no Firestore com ID: '' @ docid,
                variant = Default\<rparr>])
       \<and> (addDoc_id r = None \<longrightarrow>
            the_record s' = \<lparr>ecg = ''data:image/png;base64,XX'',
                              laudo = ''data:image/png;base64,YY'', descricao = ''ok''\<rparr>
          \<and> toasts b' = toasts b @
              [\<lparr>title = ''Erro ao enviar'',
                description = ''Ocorreu um erro ao salvar no Firestore. Verifique sua conex''
                  @ [CHR 0xE3] @ ''o e credenciais.'',
                variant = Destructive\<rparr>])"
proof -
  from assms(7) have b1: "b1 = b"
    and s: "s = (index_mount b index_initial)\<lparr>the_record := example_record\<rparr>"
    by (auto simp add: index_run_example_events [unfolded example_events_def]
        example_record_def)
  have "field (credentials_object p) ''collectionName'' = JStr (collectionName p)"
    by (simp add: field_def credentials_object_def)
  with assms(1-6,8) show ?thesis unfolding b1 s
    by (cases "addDoc_id r")
       (auto simp add: index_mount_stored index_initial_def handleSubmit_def submit_try_def
        add_document_def nullish_def credentials_object_def Let_def sdk_def toast_show_def
        new_calls_def writes_def record_document_def example_record_def
        dados_enviados_def erro_ao_enviar_def empty_record_def)
qed

theorem C7_submit_scenario_witness:
  "new_calls (example_browser (Some example_json))
     (fst (handleSubmit example_platform (example_run (Some ''doc1''))
        (index_run example_platform
           [EcgChange ''data:image/png;base64,XX'', LaudoChange ''data:image/png;base64,YY'',
            DescricaoChange ''ok'']
           (example_browser (Some example_json),
            index_mount (example_browser (Some example_json)) index_initial))))
   = [InitializeApp (firebaseConfig (credentials_object example_profile)) ''medical-app-0'',
      GetFirestore ''medical-app-0'',
      Collection ''medical-app-0'' (JStr ''medical_records''),
      AddDoc (JStr ''medical_records'')
        (JObj [(''ecg'', JStr ''data:image/png;base64,XX''),
               (''laudo'', JStr ''data:image/png;base64,YY''),
               (''descricao'', JStr ''ok''),
               (''timestamp'', JStr ''1970-01-01T00:00:00.001Z''),
               (''created_at'', JDate 2)])]
   \<and> the_record (snd (handleSubmit example_platform (example_run (Some ''doc1''))
        (index_run example_platform
           [EcgChange ''data:image/png;base64,XX'', LaudoChange ''data:image/png;base64,YY'',
            DescricaoChange ''ok'']
           (example_browser (Some example_json),
            index_mount (example_browser (Some example_json)) index_initial))))
     = \<lparr>ecg = [], laudo = [], descricao = []\<rparr>
   \<and> length (writes (new_calls (example_browser (Some example_json))
       (fst (handleSubmit example_platform (example_run None)
          (index_run example_platform
             [EcgChange ''data:image/png;base64,XX'',
              LaudoChange ''data:image/png;base64,YY'', DescricaoChange ''ok'']
             (example_browser (Some example_json),
              index_mount (example_browser (Some example_json)) index_initial)))))) = 1
   \<and> the_record (snd (handleSubmit example_platform (example_run None)
        (index_run example_platform
           [EcgChange ''data:image/png;base64,XX'', LaudoChange ''data:image/png;base64,YY'',
            DescricaoChange ''ok'']
           (example_browser (Some example_json),
            index_mount (example_browser (Some example_json)) index_initial))))
     = \<lparr>ecg = ''data:image/png;base64,XX'', laudo = ''data:image/png;base64,YY'',
        descricao = ''ok''\<rparr>"
proof -
  let ?b = "example_browser (Some example_json)"
  let ?r = "example_run (Some ''doc1'')"
  let ?q = "example_run None"
  let ?m = "index_run example_platform
           [EcgChange ''data:image/png;base64,XX'', LaudoChange ''data:image/png;base64,YY'',
            DescricaoChange ''ok''] (?b, index_mount ?b index_initial)"
  let ?f = "handleSubmit example_platform ?r ?m"
  let ?g = "handleSubmit example_platform ?q ?m"
  have h: "localStorage ?b credentials_key = Some example_json" "example_json \<noteq> []"
    "JSON_parse example_platform example_json = Some (credentials_object example_profile)"
    by (simp_all add: example_defs)
  have hr: "\<not> initializeApp_throws ?r" "\<not> getFirestore_throws ?r" "\<not> collection_throws ?r"
    by (simp_all add: example_defs)
  have hq: "\<not> initializeApp_throws ?q" "\<not> getFirestore_throws ?q" "\<not> collection_throws ?q"
    by (simp_all add: example_defs)
  have m: "index_run example_platform
           [EcgChange ''data:image/png;base64,XX'', LaudoChange ''data:image/png;base64,YY'',
            DescricaoChange ''ok''] (?b, index_mount ?b index_initial)
     = (fst ?m, snd ?m)" by simp
  have f: "handleSubmit example_platform ?r (fst ?m, snd ?m) = (fst ?f, snd ?f)" by simp
  have g: "handleSubmit example_platform ?q (fst ?m, snd ?m) = (fst ?g, snd ?g)" by simp
  have d: "show_int 0 = ''0''"
    by code_simp
  have v: "date_now ?r = 0" "new_date1 ?r = 1" "new_date2 ?r = 2"
    "toISOString example_platform 1 = ''1970-01-01T00:00:00.001Z''"
    "collectionName example_profile = ''medical_records''"
    "addDoc_id ?r = Some ''doc1''" "addDoc_id ?q = None"
    by (simp_all add: example_defs)
  from C7_submit_scenario [OF h hr m f] have 1: "new_calls ?b (fst ?f) =
      [InitializeApp (firebaseConfig (credentials_object example_profile)) ''medical-app-0'',
       GetFirestore ''medical-app-0'',
       Collection ''medical-app-0'' (JStr ''medical_records''),
       AddDoc (JStr ''medical_records'')
        (JObj [(''ecg'', JStr ''data:image/png;base64,XX''),
               (''laudo'', JStr ''data:image/png;base64,YY''),
               (''descricao'', JStr ''ok''),
               (''timestamp'', JStr ''1970-01-01T00:00:00.001Z''),
               (''created_at'', JDate 2)])]"
    "the_record (snd ?f) = \<lparr>ecg = [], laudo = [], descricao = []\<rparr>"
    by (simp_all add: d v)
  note t = C7_submit_scenario [OF h hq m g]
  from t [THEN conjunct2, THEN conjunct1] have 2:
    "length (writes (new_calls ?b (fst ?g))) = 1" .
  from t [THEN conjunct2, THEN conjunct2, THEN conjunct2] v(7) have 3:
    "the_record (snd ?g) = \<lparr>ecg = ''data:image/png;base64,XX'',
        laudo = ''data:image/png;base64,YY'', descricao = ''ok''\<rparr>"
    by simp
  from 1 2 3 show ?thesis by simp
qed

text \<open>
  Claim C7 as stated has the document consist of the three fields and one timestamp;
  the document written in the scenario has five fields.
\<close>

theorem C7_submit_scenario_counterexample:
  "map written_keys (writes (new_calls (example_browser (Some example_json))
     (fst (handleSubmit example_platform (example_run (Some ''doc1''))
        (index_run example_platform example_events
           (example_browser (Some example_json),
            index_mount (example_browser (Some example_json)) index_initial))))))
   = [[''ecg'', ''laudo'', ''descricao'', ''timestamp'', ''created_at'']]
   \<and> [''ecg'', ''laudo'', ''descricao'', ''timestamp'', ''created_at'']
       \<noteq> [''ecg'', ''laudo'', ''descricao'', ''timestamp'']"
  by (simp add: example_defs page_defs)

section \<open>The settings panel\<close>

lemma testConnection_frame:
  assumes "testConnection pf r c b = (b1, res)"
  shows "toasts b1 = toasts b" and "localStorage b1 = localStorage b"
    and "uncaught b1 = uncaught b"
  using assms
  by (auto simp: testConnection_def Let_def sdk_def
      dest: add_document_frame split: prod.splits sum.splits if_splits)

lemma testConnection_fails:
  assumes "round_trip_fails r"
  shows "\<exists>b1 e. testConnection pf r c b = (b1, Inl e)"
proof (cases "add_document r ''test-app-'' c (test_document pf r) b")
  case (Pair b1 res)
  show ?thesis
  proof (cases res)
    case (Inl e)
    with Pair show ?thesis by (simp add: testConnection_def)
  next
    case (Inr docid)
    from add_document_Inr [OF Pair [unfolded Inr]] assms
    have "deleteDoc_rejects r" by (auto simp: round_trip_fails_def)
    with Pair Inr show ?thesis by (simp add: testConnection_def Let_def)
  qed
qed

lemma testConnection_Inr:
  assumes "testConnection pf r c b = (b1, Inr ok)"
  shows "\<not> round_trip_fails r" and "\<not> nullish c"
   and "\<exists>docid. addDoc_id r = Some docid \<and> new_calls b b1 =
           [InitializeApp (firebaseConfig c) (''test-app-'' @ show_int (date_now r)),
            GetFirestore (''test-app-'' @ show_int (date_now r)),
            Collection (''test-app-'' @ show_int (date_now r)) (field c ''collectionName''),
            AddDoc (field c ''collectionName'') (test_document pf r),
            DeleteDoc docid]"
proof -
  obtain b0 res where a: "add_document r ''test-app-'' c (test_document pf r) b = (b0, res)"
    by (cases "add_document r ''test-app-'' c (test_document pf r) b")
  with assms obtain docid where r: "res = Inr docid" and d: "\<not> deleteDoc_rejects r"
    and b1: "b1 = sdk (DeleteDoc docid) b0"
    by (auto simp: testConnection_def Let_def split: sum.splits if_splits)
  note f = add_document_Inr [OF a [unfolded r]]
  from f d show "\<not> round_trip_fails r" by (simp add: round_trip_fails_def)
  from f show "\<not> nullish c" by simp
  have "length (sdk_calls b) \<le> length (sdk_calls b0)"
    using f(2) by (auto simp: new_calls_def) (metis drop_all list.distinct(1) linorder_le_cases)
  with f(1,2) b1 show "\<exists>docid. addDoc_id r = Some docid \<and> new_calls b b1 =
           [InitializeApp (firebaseConfig c) (''test-app-'' @ show_int (date_now r)),
            GetFirestore (''test-app-'' @ show_int (date_now r)),
            Collection (''test-app-'' @ show_int (date_now r)) (field c ''collectionName''),
            AddDoc (field c ''collectionName'') (test_document pf r),
            DeleteDoc docid]"
    by (simp add: new_calls_def sdk_def)
qed

text \<open>
  Claim C2. When a step of the round trip throws, \<open>handleSave\<close> leaves local storage
  as it was and does not call \<open>onCredentialsSave\<close>, whatever the profile. Conversely,
  storage changes or the owner is notified only after the marker document was both
  written and deleted.
\<close>

theorem C2_no_persist_on_failure:
  assumes "handleSave pf r onCredentialsSave (b, c, owner) = (b', c', owner')"
  shows "(round_trip_fails r \<longrightarrow> localStorage b' = localStorage b \<and> owner' = owner)
       \<and> (localStorage b' \<noteq> localStorage b \<or> owner' \<noteq> owner \<longrightarrow>
            (\<exists>docid. addDoc_id r = Some docid \<and> new_calls b b' =
               [InitializeApp (firebaseConfig (credentials c))
                  (''test-app-'' @ show_int (date_now r)),
                GetFirestore (''test-app-'' @ show_int (date_now r)),
                Collection (''test-app-'' @ show_int (date_now r))
                  (field (credentials c) ''collectionName''),
                AddDoc (field (credentials c) ''collectionName'') (test_document pf r),
                DeleteDoc docid]))"
proof -
  obtain b1 res where t: "testConnection pf r (credentials c) b = (b1, res)"
    by (cases "testConnection pf r (credentials c) b")
  show ?thesis
  proof (cases res)
    case (Inl e)
    from testConnection_frame(2) [OF t] assms t Inl
    have "localStorage b' = localStorage b \<and> owner' = owner"
      by (auto simp: handleSave_def Let_def split: if_splits)
    then show ?thesis by simp
  next
    case (Inr ok)
    note ok = testConnection_Inr [OF t [unfolded Inr]]
    from assms t Inr have "new_calls b b' = new_calls b b1
        \<or> (localStorage b' = localStorage b \<and> owner' = owner)"
      by (auto simp: handleSave_def Let_def new_calls_def toast_show_def split: if_splits)
    with ok(1,3) show ?thesis by auto
  qed
qed

theorem C2_no_persist_on_failure_witness:
  "round_trip_fails (example_run None)
   \<and> localStorage (fst (handleSave example_platform (example_run None) log_owner
        (example_browser None, example_config, []))) = Map.empty
   \<and> snd (snd (handleSave example_platform (example_run None) log_owner
        (example_browser None, example_config, []))) = []
   \<and> localStorage (fst (handleSave example_platform (example_run (Some ''t1'')) log_owner
        (example_browser None, example_config, []))) = [credentials_key \<mapsto> example_json]
   \<and> sdk_calls (fst (handleSave example_platform (example_run (Some ''t1'')) log_owner
        (example_browser None, example_config, []))) =
       [InitializeApp (firebaseConfig (credentials_object example_profile)) ''test-app-0'',
        GetFirestore ''test-app-0'',
        Collection ''test-app-0'' (JStr ''medical_records''),
        AddDoc (JStr ''medical_records'')
          (JObj [(''test'', JBool True),
                 (''timestamp'', JStr ''1970-01-01T00:00:00.001Z''),
                 (''connectionTest'', JStr ''success'')]),
        DeleteDoc ''t1'']"
proof -
  let ?b = "example_browser None"
  let ?f = "handleSave example_platform (example_run None) log_owner
        (?b, example_config, [])"
  let ?g = "handleSave example_platform (example_run (Some ''t1'')) log_owner
        (?b, example_config, [])"
  have h: "round_trip_fails (example_run None)"
    by (simp add: round_trip_fails_def example_run_def)
  have e: "handleSave example_platform (example_run None) log_owner
        (?b, example_config, []) = (fst ?f, fst (snd ?f), snd (snd ?f))"
    by simp
  from C2_no_persist_on_failure [OF e] h
  have 1: "localStorage (fst ?f) = localStorage ?b" "snd (snd ?f) = []" by simp_all
  have d: "show_int 0 = ''0''" by code_simp
  have s: "localStorage (fst ?g) = [credentials_key \<mapsto> example_json]"
    by (simp add: handleSave_def testConnection_def add_document_def missingFields_def
        requiredFields_def field_def nullish_def credentials_object_def sdk_def
        toast_show_def example_config_def example_defs Let_def)
  then have c: "localStorage (fst ?g) \<noteq> localStorage ?b"
    by (simp add: example_browser_def)
  have g: "handleSave example_platform (example_run (Some ''t1'')) log_owner
        (?b, example_config, []) = (fst ?g, fst (snd ?g), snd (snd ?g))"
    by simp
  have v: "field (credentials_object example_profile) ''collectionName''
       = JStr ''medical_records''"
    "credentials example_config = credentials_object example_profile"
    "test_document example_platform (example_run (Some ''t1'')) =
       JObj [(''test'', JBool True), (''timestamp'', JStr ''1970-01-01T00:00:00.001Z''),
             (''connectionTest'', JStr ''success'')]"
    "date_now (example_run (Some ''t1'')) = 0" "sdk_calls ?b = []"
    "addDoc_id (example_run (Some ''t1'')) = Some ''t1''"
    by (simp_all add: example_config_def field_def credentials_object_def example_defs
        test_document_def)
  from C2_no_persist_on_failure [OF g] c
  have 2: "sdk_calls (fst ?g) =
       [InitializeApp (firebaseConfig (credentials_object example_profile)) ''test-app-0'',
        GetFirestore ''test-app-0'',
        Collection ''test-app-0'' (JStr ''medical_records''),
        AddDoc (JStr ''medical_records'')
          (JObj [(''test'', JBool True),
                 (''timestamp'', JStr ''1970-01-01T00:00:00.001Z''),
                 (''connectionTest'', JStr ''success'')]),
        DeleteDoc ''t1'']"
    by (auto simp add: v d new_calls_def)
  from h 1 s 2 show ?thesis by (simp add: example_browser_def)
qed

lemma missingFields_credentials_object:
  "missingFields (credentials_object p) = empty_required p"
  by (simp add: missingFields_def requiredFields_def field_def credentials_object_def
      empty_required_def)

lemma empty_required_iff:
  "empty_required p \<noteq> [] \<longleftrightarrow>
     projectId p = [] \<or> apiKey p = [] \<or> authDomain p = [] \<or> collectionName p = []"
  by (simp add: empty_required_def)

text \<open>
  Claim C6. For a profile with one of the four required fields empty, \<open>handleSave\<close>
  shows the required-fields notice, whose text lists the empty required fields and no
  other, in the order project id, API key, auth domain, collection name; it stores
  nothing, makes no SDK call and does not notify the owner. With the four fields filled
  in, validation passes and the round trip starts, whatever the other three hold.
\<close>

theorem C6_required_fields:
  assumes "credentials c = credentials_object p"
    and "handleSave pf r onCredentialsSave (b, c, owner) = (b', c', owner')"
  shows "(projectId p = [] \<or> apiKey p = [] \<or> authDomain p = [] \<or> collectionName p = [] \<longrightarrow>
            toasts b' = toasts b @
              [\<lparr>title = ''Campos obrigat'' @ [CHR 0xF3] @ ''rios'',
                description = ''Por favor, preencha: '' @ join '', ''
                  ((if projectId p = [] then [''projectId''] else []) @
                   (if apiKey p = [] then [''apiKey''] else []) @
                   (if authDomain p = [] then [''authDomain''] else []) @
                   (if collectionName p = [] then [''collectionName''] else [])),
                variant = Destructive\<rparr>]
          \<and> localStorage b' = localStorage b \<and> sdk_calls b' = sdk_calls b
          \<and> c' = c \<and> owner' = owner)
       \<and> (projectId p \<noteq> [] \<and> apiKey p \<noteq> [] \<and> authDomain p \<noteq> [] \<and> collectionName p \<noteq> [] \<longrightarrow>
            take 1 (new_calls b b') =
              [InitializeApp (firebaseConfig (credentials_object p))
                 (''test-app-'' @ show_int (date_now r))])"
proof -
  have n: "\<not> nullish (credentials c)"
    by (simp add: assms(1) nullish_def credentials_object_def)
  show ?thesis
  proof (cases "empty_required p = []")
    case False
    with assms(2) n have "b' = toast_show (campos_obrigatorios (por_favor_preencha (empty_required p))) b"
      and "c' = c" and "owner' = owner"
      by (simp_all add: handleSave_def assms(1) missingFields_credentials_object)
    with False show ?thesis
      by (simp add: empty_required_iff por_favor_preencha_def campos_obrigatorios_def)
         (simp add: empty_required_def)
  next
    case True
    then have all: "projectId p \<noteq> [] \<and> apiKey p \<noteq> [] \<and> authDomain p \<noteq> [] \<and> collectionName p \<noteq> []"
      using empty_required_iff [of p] by simp
    obtain b1 res where t: "testConnection pf r (credentials_object p) b = (b1, res)"
      by (cases "testConnection pf r (credentials_object p) b")
    have "take 1 (new_calls b b1) = [InitializeApp (firebaseConfig (credentials_object p))
                 (''test-app-'' @ show_int (date_now r))]"
      using t n [unfolded assms(1)]
      by (auto simp: testConnection_def add_document_def Let_def sdk_def new_calls_def
          split: if_splits option.splits)
    moreover from assms(2) n True t have "new_calls b b' = new_calls b b1"
      by (auto simp: handleSave_def assms(1) missingFields_credentials_object Let_def
          new_calls_def toast_show_def split: sum.splits if_splits)
    ultimately show ?thesis using all by simp
  qed
qed

theorem C6_required_fields_witness:
  "toasts (fst (handleSave example_platform (example_run (Some ''t1'')) log_owner
     (example_browser None,
      \<lparr>credentials = credentials_object (example_profile\<lparr>apiKey := [], collectionName := []\<rparr>),
       config_isLoading = False\<rparr>, [])))
   = [\<lparr>title = ''Campos obrigat'' @ [CHR 0xF3] @ ''rios'',
       description = ''Por favor, preencha: apiKey, collectionName'',
       variant = Destructive\<rparr>]
   \<and> localStorage (fst (handleSave example_platform (example_run (Some ''t1'')) log_owner
     (example_browser None,
      \<lparr>credentials = credentials_object (example_profile\<lparr>apiKey := [], collectionName := []\<rparr>),
       config_isLoading = False\<rparr>, []))) = Map.empty
   \<and> sdk_calls (fst (handleSave example_platform (example_run (Some ''t1'')) log_owner
     (example_browser None,
      \<lparr>credentials = credentials_object (example_profile\<lparr>apiKey := [], collectionName := []\<rparr>),
       config_isLoading = False\<rparr>, []))) = []
   \<and> snd (snd (handleSave example_platform (example_run (Some ''t1'')) log_owner
     (example_browser None,
      \<lparr>credentials = credentials_object (example_profile\<lparr>apiKey := [], collectionName := []\<rparr>),
       config_isLoading = False\<rparr>, []))) = []
   \<and> take 1 (sdk_calls (fst (handleSave example_platform (example_run (Some ''t1'')) log_owner
        (example_browser None, example_config, []))))
     = [InitializeApp (firebaseConfig (credentials_object example_profile)) ''test-app-0'']"
proof -
  let ?p = "example_profile\<lparr>apiKey := [], collectionName := []\<rparr>"
  let ?c = "\<lparr>credentials = credentials_object ?p, config_isLoading = False\<rparr>"
  let ?b = "example_browser None"
  let ?r = "example_run (Some ''t1'')"
  let ?f = "handleSave example_platform ?r log_owner (?b, ?c, [])"
  let ?g = "handleSave example_platform ?r log_owner (?b, example_config, [])"
  have c: "credentials ?c = credentials_object ?p" by simp
  have f: "handleSave example_platform ?r log_owner (?b, ?c, [])
     = (fst ?f, fst (snd ?f), snd (snd ?f))" by simp
  have p: "apiKey ?p = []" "collectionName ?p = []" "projectId ?p \<noteq> []"
    "authDomain ?p \<noteq> []"
    by (simp_all add: example_profile_def)
  have b: "toasts ?b = []" "localStorage ?b = Map.empty" "sdk_calls ?b = []"
    by (simp_all add: example_browser_def)
  from C6_required_fields [OF c f] p
  have 1: "toasts (fst ?f) = toasts ?b @
      [\<lparr>title = ''Campos obrigat'' @ [CHR 0xF3] @ ''rios'',
        description = ''Por favor, preencha: apiKey, collectionName'',
        variant = Destructive\<rparr>]"
    "localStorage (fst ?f) = localStorage ?b" "sdk_calls (fst ?f) = sdk_calls ?b"
    "snd (snd ?f) = []"
    by simp_all
  have c2: "credentials example_config = credentials_object example_profile"
    by (simp add: example_config_def)
  have g: "handleSave example_platform ?r log_owner (?b, example_config, [])
     = (fst ?g, fst (snd ?g), snd (snd ?g))" by simp
  have q: "projectId example_profile \<noteq> [] \<and> apiKey example_profile \<noteq> []
     \<and> authDomain example_profile \<noteq> [] \<and> collectionName example_profile \<noteq> []"
    by (simp add: example_profile_def)
  have d: "show_int 0 = ''0''" by code_simp
  from C6_required_fields [OF c2 g] q
  have "take 1 (new_calls ?b (fst ?g)) =
      [InitializeApp (firebaseConfig (credentials_object example_profile)) ''test-app-0'']"
    by (simp add: d example_run_def)
  then have 2: "take 1 (sdk_calls (fst ?g)) =
      [InitializeApp (firebaseConfig (credentials_object example_profile)) ''test-app-0'']"
    by (simp add: new_calls_def b)
  from 1 2 b show ?thesis by simp
qed

text \<open>
  Claim C10, as amended. With a stored value that \<open>JSON.parse\<close> rejects, the settings
  panel keeps its defaults on mount (collection name \<open>medical_records\<close>, all else
  empty), and the page shows the connected indicator exactly when the stored value is
  not the empty text: it tests the value's truthiness, not its validity.
\<close>

theorem C10_unparseable_profile:
  assumes "localStorage b credentials_key = Some saved" and "JSON_parse pf saved = None"
  shows "credentials (config_mount pf b config_initial) =
           credentials_object \<lparr>projectId = [], apiKey = [], authDomain = [],
             storageBucket = [], messagingSenderId = [], appId = [],
             collectionName = ''medical_records''\<rparr>
       \<and> config_mount pf b config_initial = config_initial
       \<and> isConnected (index_mount b index_initial) = (saved \<noteq> [])"
  using assms
  by (simp add: config_mount_def config_initial_def default_credentials_def index_mount_def
      index_initial_def)

theorem C10_unparseable_profile_witness:
  "credentials (config_mount example_platform (example_browser (Some ''{not json''))
       config_initial) =
     credentials_object \<lparr>projectId = [], apiKey = [], authDomain = [],
       storageBucket = [], messagingSenderId = [], appId = [],
       collectionName = ''medical_records''\<rparr>
   \<and> isConnected (index_mount (example_browser (Some ''{not json'')) index_initial)"
proof -
  have h: "localStorage (example_browser (Some ''{not json'')) credentials_key = Some ''{not json''"
    "JSON_parse example_platform ''{not json'' = None"
    by (simp_all add: example_defs)
  note t = C10_unparseable_profile [OF h]
  from t [THEN conjunct1] t [THEN conjunct2, THEN conjunct2] show ?thesis by simp
qed

text \<open>
  Claim C10 as stated fails for the empty text stored under the key: it does not parse,
  and the page does not show the connected indicator.
\<close>

theorem C10_unparseable_profile_counterexample:
  "localStorage (example_browser (Some [])) credentials_key = Some []
   \<and> JSON_parse example_platform [] = None
   \<and> \<not> isConnected (index_mount (example_browser (Some [])) index_initial)"
  by (simp add: example_defs index_mount_def index_initial_def)

section \<open>Properties of the attachment encoder\<close>

subsection \<open>Base64 is reversible\<close>

text \<open>Two bytes are equal when their eight bits are.\<close>

lemma byte_eqI:
  fixes x y :: "8 word"
  assumes "bit x 0 = bit y 0" "bit x 1 = bit y 1" "bit x 2 = bit y 2" "bit x 3 = bit y 3"
    "bit x 4 = bit y 4" "bit x 5 = bit y 5" "bit x 6 = bit y 6" "bit x 7 = bit y 7"
  shows "x = y"
proof (rule bit_word_eqI)
  fix n assume "n < LENGTH(8)"
  then have "n \<in> {0, 1, 2, 3, 4, 5, 6, 7}" by auto
  with assms show "bit x n = bit y n" by auto
qed

lemmas sextet_defs = sextet1_def sextet2_def sextet3_def sextet4_def byte1_def byte2_def
  byte3_def

lemma masks: "(3 :: 8 word) = mask 2" "(15 :: 8 word) = mask 4" "(63 :: 8 word) = mask 6"
  by (simp_all add: mask_eq_exp_minus_1)

text \<open>Splitting three bytes into four groups and joining them again changes nothing.\<close>

lemma bytes_back:
  "byte1 (sextet1 a) (sextet2 a b) = a"
  "byte2 (sextet2 a b) (sextet3 b c) = b"
  "byte3 (sextet3 b c) (sextet4 c) = c"
  unfolding sextet_defs masks
  by (rule byte_eqI; simp add: bit_simps)+

lemma sextet_less:
  fixes x :: "8 word"
  assumes "\<not> bit x 6" "\<not> bit x 7"
  shows "x < 64"
proof -
  have "x AND mask 6 = x"
    by (rule byte_eqI) (simp_all add: bit_simps assms)
  then have "x < 2 ^ 6"
    using mask_eq_iff_w2p [of 6 x] by (simp add: word_size)
  then show ?thesis by simp
qed

lemma high_bits: "8 \<le> n \<Longrightarrow> \<not> bit (a :: 8 word) n"
  by (auto dest: bit_imp_le_length)

lemma sextets:
  "sextet1 a < 64" "sextet2 a b < 64" "sextet3 b c < 64" "sextet4 c < 64"
  unfolding sextet_defs masks
  by (rule sextet_less; simp add: bit_simps high_bits)+

lemma length_alphabet: "length alphabet = 64"
  by (simp add: alphabet_def)

lemma distinct_alphabet: "distinct alphabet"
  by (simp add: alphabet_def)

lemma alphabet_no_pad: "CHR ''='' \<notin> set alphabet" "CHR '','' \<notin> set alphabet"
  by (simp_all add: alphabet_def)

text \<open>The alphabet has no repeated character, so a group is read back from its character.\<close>

lemma index_of_nth:
  "distinct xs \<Longrightarrow> i < length xs \<Longrightarrow> index_of (xs ! i) xs = Some i"
proof (induction xs arbitrary: i)
  case Nil
  then show ?case by simp
next
  case (Cons x xs)
  then show ?case by (cases i) auto
qed

lemma b64char_in:
  assumes "s < 64"
  shows "b64char s \<in> set alphabet"
proof -
  from assms have "unat s < 64" by (simp add: word_less_nat_alt)
  then show ?thesis by (simp add: b64char_def length_alphabet)
qed

lemma b64val_b64char:
  assumes "s < 64"
  shows "b64val (b64char s) = Some s"
proof -
  from assms have "unat s < length alphabet"
    by (simp add: word_less_nat_alt length_alphabet)
  from index_of_nth [OF distinct_alphabet this] show ?thesis
    by (simp add: b64val_def b64char_def)
qed

lemma b64char_neq:
  assumes "s < 64"
  shows "b64char s \<noteq> CHR ''=''" and "b64char s \<noteq> CHR '',''"
  using b64char_in [OF assms] alphabet_no_pad by auto

text \<open>The round trip of the payload, by the recursion of the encoder.\<close>

lemma unbase64_to_base64: "unbase64 (to_base64 bs) = Some bs"
proof (induction bs rule: to_base64.induct)
  case 1
  then show ?case by simp
next
  case (2 a)
  show ?case
    by (simp add: b64val_b64char sextets bytes_back)
next
  case (3 a b)
  show ?case
    by (simp add: b64val_b64char b64char_neq sextets bytes_back)
next
  case (4 a b c bs)
  then show ?case
    by (simp add: b64val_b64char b64char_neq sextets bytes_back)
qed

lemma to_base64_no_comma: "CHR '','' \<notin> set (to_base64 bs)"
  by (induction bs rule: to_base64.induct)
     (simp_all add: b64char_neq(2) [THEN not_sym] sextets)

lemma takeWhile_stop:
  "\<forall>x\<in>set xs. P x \<Longrightarrow> \<not> P y \<Longrightarrow> takeWhile P (xs @ y # ys) = xs"
  by (induction xs) auto

lemma payload_append:
  assumes "CHR '','' \<notin> set t"
  shows "payload (s @ CHR '','' # t) = t"
proof -
  have "takeWhile (\<lambda>c. c \<noteq> CHR '','') (rev t @ CHR '','' # rev s) = rev t"
    using assms by (intro takeWhile_stop) auto
  then show ?thesis by (simp add: payload_def)
qed

lemma decodeDataURL_readAsDataURL:
  "decodeDataURL (readAsDataURL file) = Some (file_bytes file)"
proof -
  have "readAsDataURL file =
      (''data:'' @ file_type file @ '';base64'') @ CHR '','' # to_base64 (file_bytes file)"
    by (simp add: readAsDataURL_def)
  then have "payload (readAsDataURL file) = to_base64 (file_bytes file)"
    using payload_append [OF to_base64_no_comma] by metis
  then show ?thesis
    by (simp add: decodeDataURL_def unbase64_to_base64) (simp add: readAsDataURL_def)
qed

text \<open>
  For a media type without a comma, the payload after the last comma is the one after
  the first.
\<close>

lemma dropWhile_skip:
  "\<forall>x\<in>set xs. P x \<Longrightarrow> dropWhile P (xs @ ys) = dropWhile P ys"
  by (induction xs) auto

lemma payload_first_comma:
  assumes "CHR '','' \<notin> set (file_type file)"
  shows "payload (readAsDataURL file)
       = tl (dropWhile (\<lambda>c. c \<noteq> CHR '','') (readAsDataURL file))"
proof -
  have "dropWhile (\<lambda>c. c \<noteq> CHR '','') (readAsDataURL file)
      = CHR '','' # to_base64 (file_bytes file)"
  proof -
    have "\<forall>x\<in>set (file_type file). x \<noteq> CHR '',''"
      using assms by auto
    then show ?thesis
      by (simp add: readAsDataURL_def dropWhile_skip)
  qed
  moreover have "payload (readAsDataURL file) = to_base64 (file_bytes file)"
    using payload_append [OF to_base64_no_comma,
        of "''data:'' @ file_type file @ '';base64''" "file_bytes file"]
    by (simp add: readAsDataURL_def)
  ultimately show ?thesis by simp
qed

text \<open>
  Claim C3. Whenever the encoder's promise resolves for a file, to a text, decoding that
  text gives back the bytes of the file, all of them and in order.
\<close>

theorem C3_round_trip:
  assumes "convertToBase64 (file_reader file fails) = Inr encoded"
  shows "decodeDataURL encoded = Some (file_bytes file)"
proof -
  from assms have "encoded = readAsDataURL file"
    by (auto simp: convertToBase64_def file_reader_def split: if_splits)
  then show ?thesis by (simp add: decodeDataURL_readAsDataURL)
qed

theorem C3_round_trip_witness:
  "convertToBase64 (file_reader example_png False) = Inr ''data:image/png;base64,iVBORw0=''
   \<and> decodeDataURL ''data:image/png;base64,iVBORw0='' = Some [0x89, 0x50, 0x4E, 0x47, 0x0D]"
proof -
  have e: "convertToBase64 (file_reader example_png False)
      = Inr ''data:image/png;base64,iVBORw0=''"
    by code_simp
  from C3_round_trip [OF e] e show ?thesis
    by (simp add: example_png_def)
qed

text \<open>The value that a finished read hands to the owner decodes to the file read.\<close>

lemma encoded_value_decodes:
  assumes "i < length (reading u)"
  shows "decodeDataURL (value (upload_step (ReaderDone i False) u))
       = Some (file_bytes (reading u ! i))"
proof -
  have "readAsDataURL (reading u ! i) \<noteq> []"
    by (simp add: readAsDataURL_def)
  with assms have "value (upload_step (ReaderDone i False) u) = readAsDataURL (reading u ! i)"
    by (simp add: convertToBase64_def file_reader_def handleFileUpload_settled_def
        onChange_def)
  then show ?thesis by (simp add: decodeDataURL_readAsDataURL)
qed

subsection \<open>The widget's guards\<close>

text \<open>
  Claim C9. A file whose media type does not start with \<open>image/\<close> is rejected with an
  alert: \<open>onChange\<close> is not called, the value stays what it was, no read starts. The
  same holds when the file arrives as the first of a drop or of a selection.
\<close>

theorem C9_non_image_rejected:
  assumes "\<not> prefix ''image/'' (file_type file)"
  shows "handleFileUpload file u = alert selecione_imagem u
       \<and> alerts (handleFileUpload file u) = alerts u @ [selecione_imagem]
       \<and> changes (handleFileUpload file u) = changes u
       \<and> value (handleFileUpload file u) = value u
       \<and> reading (handleFileUpload file u) = reading u
       \<and> changes (upload_step (Drop (file # others)) u) = changes u
       \<and> value (upload_step (Drop (file # others)) u) = value u
       \<and> reading (upload_step (Drop (file # others)) u) = reading u
       \<and> alerts (upload_step (Drop (file # others)) u) = alerts u @ [selecione_imagem]
       \<and> changes (upload_step (FileSelect (file # others)) u) = changes u
       \<and> value (upload_step (FileSelect (file # others)) u) = value u
       \<and> reading (upload_step (FileSelect (file # others)) u) = reading u"
  using assms
  by (simp add: handleFileUpload_def alert_def handleDrop_def handleFileSelect_def)

theorem C9_non_image_rejected_witness:
  "\<not> prefix ''image/'' (file_type example_pdf)
   \<and> upload_step (Drop [example_pdf, example_png]) (idle_upload\<lparr>value := ''old''\<rparr>)
     = idle_upload\<lparr>value := ''old'', alerts := [selecione_imagem]\<rparr>"
proof -
  let ?u = "idle_upload\<lparr>value := ''old''\<rparr>"
  have h: "\<not> prefix ''image/'' (file_type example_pdf)"
    by (simp add: example_pdf_def)
  from C9_non_image_rejected [OF h, of ?u "[example_png]"]
  have "changes (upload_step (Drop [example_pdf, example_png]) ?u) = changes ?u"
    and "value (upload_step (Drop [example_pdf, example_png]) ?u) = value ?u"
    and "reading (upload_step (Drop [example_pdf, example_png]) ?u) = reading ?u"
    and "alerts (upload_step (Drop [example_pdf, example_png]) ?u)
           = alerts ?u @ [selecione_imagem]"
    by simp_all
  moreover have "isDragging (upload_step (Drop [example_pdf, example_png]) ?u) = False"
    "isLoading (upload_step (Drop [example_pdf, example_png]) ?u) = False"
    by (simp_all add: handleDrop_def handleFileUpload_def alert_def idle_upload_def
        example_pdf_def)
  ultimately show ?thesis using h
    by (cases "upload_step (Drop [example_pdf, example_png]) ?u")
       (simp add: idle_upload_def)
qed

text \<open>While the busy flag is set the file input delivers nothing.\<close>

lemma picker_disabled_while_busy:
  "isLoading u \<Longrightarrow> upload_step (FileSelect files) u = u"
  by (simp add: input_disabled_def)

text \<open>A dropped image starts a read whatever the busy flag says.\<close>

lemma drop_not_guarded:
  "prefix ''image/'' (file_type file) \<Longrightarrow>
   encode_started u (upload_step (Drop (file # others)) u)"
  by (simp add: handleDrop_def handleFileUpload_def encode_started_def)

text \<open>
  Claim C8 has the busy flag shut out every further input, so that no second encode
  starts before the first has settled. For the file input that holds (the lemma above).
  For a drop it does not: with a read in flight, the busy state shown and the input
  disabled, dropping an image starts a second read; and when the first read settles the
  busy flag is cleared although the second is still in flight.
\<close>

theorem C8_drop_while_busy:
  "isLoading busy_upload \<and> busy_shown busy_upload \<and> input_disabled busy_upload
   \<and> reading busy_upload = [example_png]
   \<and> upload_step (FileSelect [example_gif]) busy_upload = busy_upload
   \<and> encode_started busy_upload (upload_step (Drop [example_gif]) busy_upload)
   \<and> reading (upload_step (Drop [example_gif]) busy_upload) = [example_png, example_gif]
   \<and> \<not> isLoading (upload_step (ReaderDone 0 False)
          (upload_step (Drop [example_gif]) busy_upload))
   \<and> reading (upload_step (ReaderDone 0 False)
          (upload_step (Drop [example_gif]) busy_upload)) = [example_gif]"
  by (simp add: busy_upload_def idle_upload_def input_rendered_def input_disabled_def
      busy_shown_def handleFileSelect_def handleFileUpload_def handleDrop_def
      encode_started_def example_png_def example_gif_def handleFileUpload_settled_def
      convertToBase64_def file_reader_def readAsDataURL_def onChange_def)

end
